theory Spec2Isabelle
  imports Main "HOL-Library.AList"
begin

section \<open>Byte strings and the host's value conversions\<close>

text \<open>
  The contract \<^verbatim>\<open>contracts/NEP11/GhostMarket.NFT.py\<close> is written in the Python subset of
  neo3-boa. Every value it keeps lives in the contract's key-value storage as a byte
  string, so byte strings are the basic data of the model. A byte string is a list of
  \<^typ>\<open>char\<close> (an Isabelle character is one byte), which lets the keys and prefixes be
  written as the literals of the source.
\<close>

type_synonym bytes = string

text \<open>
  \<^verbatim>\<open>put(key, n)\<close> with an integer \<open>n\<close> stores the integer's byte form and
  \<^verbatim>\<open>get(key).to_int()\<close> reads it back. The host's byte form is the shortest
  little-endian two's-complement one; zero is the empty byte string. The integers are
  Python's, without a bound.
\<close>

function int_to_le :: "int \<Rightarrow> bytes" where
  "int_to_le i =
     (if - 128 \<le> i \<and> i < 128 then [char_of (i mod 256)]
      else char_of (i mod 256) # int_to_le (i div 256))"
  by pat_completeness auto
termination
  by (relation "measure (\<lambda>i. nat \<bar>i\<bar>)") auto

declare int_to_le.simps [simp del]

fun le_to_int :: "bytes \<Rightarrow> int" where
  "le_to_int [] = 0"
| "le_to_int [c] = (if (128::int) \<le> of_char c then of_char c - 256 else of_char c)"
| "le_to_int (c # cs) = of_char c + 256 * le_to_int cs"

definition int_to_bytes :: "int \<Rightarrow> bytes" where
  "int_to_bytes i = (if i = 0 then [] else int_to_le i)"

definition to_int :: "bytes \<Rightarrow> int" where
  "to_int b = le_to_int b"

text \<open>\<^verbatim>\<open>put(key, True)\<close> stores the byte 1; \<^verbatim>\<open>to_bool\<close> is true of a byte string with a
  non-zero byte.\<close>

definition bool_to_bytes :: "bool \<Rightarrow> bytes" where
  "bool_to_bytes b = (if b then [CHR 0x01] else [CHR 0x00])"

definition to_bool :: "bytes \<Rightarrow> bool" where
  "to_bool b = (filter (\<lambda>c. c \<noteq> CHR 0x00) b \<noteq> [])"

text \<open>\<^verbatim>\<open>UInt160(b)\<close> is a cast: the bytes read from storage are used as an address as
  they are.\<close>

definition UInt160 :: "bytes \<Rightarrow> bytes" where
  "UInt160 b = b"

subsection \<open>The host's binary serializer\<close>

text \<open>
  \<^verbatim>\<open>serialize\<close> and \<^verbatim>\<open>deserialize\<close> are services of the host (its standard library), not
  code of the contract. The model follows the host's wire format: one tag byte for the
  type of the item (0x00 null, 0x20 boolean, 0x21 integer, 0x28 byte string, 0x40 array),
  then the payload; a byte string and an integer are written with their length in front,
  an array with its number of items in front. A length is a variable-length integer:
  one byte below 0xFD, else a marker byte 0xFD, 0xFE or 0xFF and 2, 4 or 8 little-endian
  bytes. A length of \<open>2 ^ 64\<close> or more has no form, and serializing fails there.
\<close>

fun le_digits :: "nat \<Rightarrow> nat \<Rightarrow> bytes" where
  "le_digits 0 v = []"
| "le_digits (Suc w) v = char_of (v mod 256) # le_digits w (v div 256)"

fun le_value :: "bytes \<Rightarrow> nat" where
  "le_value [] = 0"
| "le_value (c # cs) = of_char c + 256 * le_value cs"

definition var_int :: "nat \<Rightarrow> bytes option" where
  "var_int n =
     (if n < 0xFD then Some [char_of n]
      else if n \<le> 0xFFFF then Some (CHR 0xFD # le_digits 2 n)
      else if n \<le> 0xFFFFFFFF then Some (CHR 0xFE # le_digits 4 n)
      else if n \<le> 0xFFFFFFFFFFFFFFFF then Some (CHR 0xFF # le_digits 8 n)
      else None)"

fun read_var_int :: "bytes \<Rightarrow> (nat \<times> bytes) option" where
  "read_var_int [] = None"
| "read_var_int (c # cs) =
     (if of_char c < (0xFD::nat) then Some (of_char c, cs)
      else let w = (if c = CHR 0xFD then 2 else if c = CHR 0xFE then 4 else 8)
           in if length cs < w then None else Some (le_value (take w cs), drop w cs))"

definition var_bytes :: "bytes \<Rightarrow> bytes option" where
  "var_bytes b = map_option (\<lambda>p. p @ b) (var_int (length b))"

text \<open>The values a caller can pass for a parameter of type \<^verbatim>\<open>Any\<close>, as far as the
  contract looks at them: \<^verbatim>\<open>None\<close>, a boolean, an integer or a byte string.\<close>

datatype any = Null | Boolean bool | Integer int | ByteString bytes

fun serialize :: "any \<Rightarrow> bytes option" where
  "serialize Null = Some [CHR 0x00]"
| "serialize (Boolean b) = Some [CHR 0x20, if b then CHR 0x01 else CHR 0x00]"
| "serialize (Integer i) = map_option ((#) (CHR 0x21)) (var_bytes (int_to_bytes i))"
| "serialize (ByteString b) = map_option ((#) (CHR 0x28)) (var_bytes b)"

text \<open>A list of addresses (\<^verbatim>\<open>List[UInt160]\<close>) is an array of byte strings.\<close>

fun serialize_items :: "bytes list \<Rightarrow> bytes option" where
  "serialize_items [] = Some []"
| "serialize_items (x # xs) =
     (case serialize (ByteString x) of
        None \<Rightarrow> None
      | Some h \<Rightarrow> (case serialize_items xs of None \<Rightarrow> None | Some t \<Rightarrow> Some (h @ t)))"

definition serialize_list :: "bytes list \<Rightarrow> bytes option" where
  "serialize_list xs =
     (case var_int (length xs) of
        None \<Rightarrow> None
      | Some n \<Rightarrow> map_option (\<lambda>b. CHR 0x40 # n @ b) (serialize_items xs))"

fun deserialize_items :: "nat \<Rightarrow> bytes \<Rightarrow> bytes list option" where
  "deserialize_items 0 bs = (if bs = [] then Some [] else None)"
| "deserialize_items (Suc n) [] = None"
| "deserialize_items (Suc n) (t # r) =
     (if t \<noteq> CHR 0x28 then None
      else case read_var_int r of
             None \<Rightarrow> None
           | Some (len, r') \<Rightarrow>
               if length r' < len then None
               else map_option ((#) (take len r')) (deserialize_items n (drop len r')))"

fun deserialize_list :: "bytes \<Rightarrow> bytes list option" where
  "deserialize_list [] = None"
| "deserialize_list (t # r) =
     (if t \<noteq> CHR 0x40 then None
      else case read_var_int r of
             None \<Rightarrow> None
           | Some (n, r') \<Rightarrow> deserialize_items n r')"

section \<open>The contract's state and its environment\<close>

text \<open>
  What a call can fail with: a failed \<^verbatim>\<open>assert\<close>, a raised \<^verbatim>\<open>Exception\<close> with its message,
  the \<^verbatim>\<open>ValueError\<close> of \<^verbatim>\<open>list.remove\<close>, and a fault inside a host service (a value that
  cannot be serialized or deserialized). Each of them aborts the invocation.
\<close>

datatype error = AssertionError | Exception string | ValueError | Fault

text \<open>
  What a call sends out: the notifications of the source (\<^verbatim>\<open>on_transfer\<close>, \<^verbatim>\<open>on_auth\<close>,
  \<^verbatim>\<open>on_deploy\<close>, \<^verbatim>\<open>debug\<close>) and the call of the receiver's \<^verbatim>\<open>onNEP11Payment\<close> made by
  \<^verbatim>\<open>post_transfer\<close>. The receiver is another contract: the model records the call with
  its arguments and goes on, as the source does when the callee returns.
\<close>

datatype event =
    Transfer "bytes option" "bytes option" int bytes
  | Auth bytes bool
  | Deploy bytes string
  | Debug "bytes list"
  | OnNEP11Payment bytes "bytes option" int bytes any

record state =
  store :: "(bytes \<times> bytes) list"
  events :: "event list"

text \<open>
  The services of the host the contract consults, given for one invocation:
  \<^verbatim>\<open>check_witness\<close>, whether \<^verbatim>\<open>get_contract\<close> finds a contract at an address, the result of
  the GAS contract's \<^verbatim>\<open>transfer\<close> from an account to this contract, the hash of the
  transaction (\<^verbatim>\<open>script_container\<close>), and \<^verbatim>\<open>json_serialize\<close>.
\<close>

record env =
  check_witness :: "bytes \<Rightarrow> bool"
  is_contract :: "bytes \<Rightarrow> bool"
  gas_transfer :: "bytes \<Rightarrow> int \<Rightarrow> bool"
  tx_hash :: bytes
  json_serialize :: "string \<Rightarrow> bytes"

subsection \<open>Storage primitives\<close>

text \<open>\<^verbatim>\<open>get\<close> of a key that is not there is the empty byte string; \<^verbatim>\<open>find\<close> gives the
  entries whose key starts with the prefix.\<close>

definition storage_get :: "state \<Rightarrow> bytes \<Rightarrow> bytes" where
  "storage_get s key = (case map_of (store s) key of None \<Rightarrow> [] | Some v \<Rightarrow> v)"

definition storage_put :: "state \<Rightarrow> bytes \<Rightarrow> bytes \<Rightarrow> state" where
  "storage_put s key v = s\<lparr>store := AList.update key v (store s)\<rparr>"

definition storage_delete :: "state \<Rightarrow> bytes \<Rightarrow> state" where
  "storage_delete s key = s\<lparr>store := AList.delete key (store s)\<rparr>"

definition storage_find :: "state \<Rightarrow> bytes \<Rightarrow> (bytes \<times> bytes) list" where
  "storage_find s pre = filter (\<lambda>kv. take (length pre) (fst kv) = pre) (store s)"

definition notify :: "state \<Rightarrow> event \<Rightarrow> state" where
  "notify s ev = s\<lparr>events := events s @ [ev]\<rparr>"

subsection \<open>Token settings, prefixes and keys\<close>

definition OWNER :: bytes where
  "OWNER = [CHR 0x96, CHR ''W'', CHR ''l'', CHR 0x0E, CHR ''*'', CHR ''*'', CHR 0x1C,
            CHR ''!'', CHR 0xC4, CHR 0xAC, CHR ''^'', CHR 0xBD, CHR '')'', CHR ''3'',
            CHR ''1'', CHR 0x15, CHR ''%'', CHR ''A'', CHR 0x1F, CHR ''@'']"

definition DEPLOY_FEE :: int where "DEPLOY_FEE = 10000000"
definition TOKEN_SYMBOL :: string where "TOKEN_SYMBOL = ''GHOST''"
definition TOKEN_SYMBOL_B :: bytes where "TOKEN_SYMBOL_B = ''GHOST''"
definition DEPLOYED :: bytes where "DEPLOYED = ''deployed''"

definition ACCOUNT_PREFIX :: bytes where "ACCOUNT_PREFIX = ''A''"
definition TOKEN_PREFIX :: bytes where "TOKEN_PREFIX = ''T''"
definition LOCKED_PREFIX :: bytes where "LOCKED_PREFIX = ''LC''"
definition BALANCE_PREFIX :: bytes where "BALANCE_PREFIX = ''B''"
definition SUPPLY_PREFIX :: bytes where "SUPPLY_PREFIX = ''S''"
definition META_PREFIX :: bytes where "META_PREFIX = ''M''"
definition LOCKED_VIEW_COUNT :: bytes where "LOCKED_VIEW_COUNT = ''LVC''"

definition TOKEN_COUNT :: bytes where "TOKEN_COUNT = ''TC''"
definition MINT_FEE :: bytes where "MINT_FEE = ''MINT_FEE''"
definition AUTH_ADDRESSES :: bytes where "AUTH_ADDRESSES = ''AUTH_ADDR''"

definition mk_account_prefix :: "bytes \<Rightarrow> bytes" where
  "mk_account_prefix address = ACCOUNT_PREFIX @ address"

definition mk_balance_key :: "bytes \<Rightarrow> bytes" where
  "mk_balance_key address = BALANCE_PREFIX @ address"

definition mk_token_key :: "bytes \<Rightarrow> bytes" where
  "mk_token_key token = TOKEN_PREFIX @ token"

definition mk_locked_key :: "bytes \<Rightarrow> bytes" where
  "mk_locked_key token = LOCKED_PREFIX @ token"

definition mk_meta_key :: "bytes \<Rightarrow> bytes" where
  "mk_meta_key token = META_PREFIX @ token"

definition mk_lv_key :: "bytes \<Rightarrow> bytes" where
  "mk_lv_key token = LOCKED_VIEW_COUNT @ token"

section \<open>The contract's methods\<close>

text \<open>
  A method that only reads returns its value, or the error it aborts with. A method that
  writes returns its outcome and the state at the point where it returned or aborted, so
  that what was written before an abort can be read off the model; the host discards the
  writes of an aborted invocation.
\<close>

definition symbol :: string where
  "symbol = TOKEN_SYMBOL"

definition decimals :: int where
  "decimals = 0"

definition totalSupply :: "state \<Rightarrow> int" where
  "totalSupply s = to_int (storage_get s SUPPLY_PREFIX)"

definition balanceOf :: "state \<Rightarrow> bytes \<Rightarrow> error + int" where
  "balanceOf s owner =
     (if length owner \<noteq> 20 then Inl AssertionError
      else Inr (to_int (storage_get s (mk_balance_key owner))))"

definition tokensOf :: "state \<Rightarrow> bytes \<Rightarrow> error + (bytes \<times> bytes) list" where
  "tokensOf s owner =
     (if length owner \<noteq> 20 then Inl AssertionError
      else Inr (storage_find s (mk_account_prefix owner)))"

definition tokens :: "state \<Rightarrow> (bytes \<times> bytes) list" where
  "tokens s = storage_find s TOKEN_PREFIX"

subsection \<open>Internal helpers\<close>

definition debug :: "state \<Rightarrow> bytes list \<Rightarrow> state" where
  "debug s params = notify s (Debug params)"

definition get_meta :: "state \<Rightarrow> bytes \<Rightarrow> bytes" where
  "get_meta s token = storage_get s (mk_meta_key token)"

definition remove_meta :: "state \<Rightarrow> bytes \<Rightarrow> state" where
  "remove_meta s token = storage_delete s (mk_meta_key token)"

definition add_meta :: "state \<Rightarrow> bytes \<Rightarrow> bytes \<Rightarrow> state" where
  "add_meta s token meta = storage_put s (mk_meta_key token) meta"

definition add_token :: "state \<Rightarrow> bytes \<Rightarrow> bytes \<Rightarrow> state" where
  "add_token s owner token = storage_put s (mk_account_prefix owner @ token) token"

definition remove_token :: "state \<Rightarrow> bytes \<Rightarrow> bytes \<Rightarrow> state" where
  "remove_token s owner token = storage_delete s (mk_account_prefix owner @ token)"

definition remove_owner_of :: "state \<Rightarrow> bytes \<Rightarrow> state" where
  "remove_owner_of s token = storage_delete s (mk_token_key token)"

definition set_owner_of :: "state \<Rightarrow> bytes \<Rightarrow> bytes \<Rightarrow> state" where
  "set_owner_of s token owner = storage_put s (mk_token_key token) owner"

definition get_owner_of :: "state \<Rightarrow> bytes \<Rightarrow> bytes" where
  "get_owner_of s token = UInt160 (storage_get s (mk_token_key token))"

definition add_locked_content :: "state \<Rightarrow> bytes \<Rightarrow> bytes \<Rightarrow> state" where
  "add_locked_content s token content =
     (let key = mk_locked_key token;
          s1 = storage_put s key content
      in debug s1 [''locked2: '', storage_get s1 key, key])"

definition get_locked_content :: "state \<Rightarrow> bytes \<Rightarrow> bytes \<times> state" where
  "get_locked_content s token =
     (let key = mk_locked_key token;
          val = storage_get s key
      in (val, debug s [''locked3: '', val, key]))"

definition remove_locked_content :: "state \<Rightarrow> bytes \<Rightarrow> state" where
  "remove_locked_content s token = storage_delete s (mk_locked_key token)"

definition get_mint_fee :: "state \<Rightarrow> int" where
  "get_mint_fee s = to_int (storage_get s MINT_FEE)"

definition set_mint_fee :: "state \<Rightarrow> int \<Rightarrow> int \<times> state" where
  "set_mint_fee s amount =
     (let s1 = storage_put s MINT_FEE (int_to_bytes amount) in (get_mint_fee s1, s1))"

definition get_locked_view_counter :: "state \<Rightarrow> bytes \<Rightarrow> int" where
  "get_locked_view_counter s token = to_int (storage_get s (mk_lv_key token))"

definition incr_locked_view_counter :: "state \<Rightarrow> bytes \<Rightarrow> state" where
  "incr_locked_view_counter s token =
     (let key = mk_lv_key token;
          count = to_int (storage_get s key) + 1
      in storage_put s key (int_to_bytes count))"

definition add_to_supply :: "state \<Rightarrow> int \<Rightarrow> state" where
  "add_to_supply s amount =
     (let total = totalSupply s + amount in storage_put s SUPPLY_PREFIX (int_to_bytes total))"

text \<open>\<^verbatim>\<open>add_to_balance\<close> reads the balance through the public \<^verbatim>\<open>balanceOf\<close>, so it aborts
  with that method's assertion when the address is not 20 bytes long.\<close>

definition add_to_balance :: "state \<Rightarrow> bytes \<Rightarrow> int \<Rightarrow> error + state" where
  "add_to_balance s owner amount =
     (case balanceOf s owner of
        Inl err \<Rightarrow> Inl err
      | Inr old \<Rightarrow>
          let new = old + amount;
              key = mk_balance_key owner
          in if new > 0 then Inr (storage_put s key (int_to_bytes new))
             else Inr (storage_delete s key))"

definition post_transfer ::
  "env \<Rightarrow> state \<Rightarrow> bytes option \<Rightarrow> bytes option \<Rightarrow> bytes \<Rightarrow> any \<Rightarrow> state" where
  "post_transfer e s from_address to_address token data =
     (let s1 = notify s (Transfer from_address to_address 1 token)
      in case to_address of
           None \<Rightarrow> s1
         | Some to \<Rightarrow>
             if is_contract e to then notify s1 (OnNEP11Payment to from_address 1 token data)
             else s1)"

definition verify :: "env \<Rightarrow> bool" where
  "verify e = (if check_witness e OWNER then True else False)"

subsection \<open>Transfer, burn and mint\<close>

definition transfer :: "env \<Rightarrow> state \<Rightarrow> bytes \<Rightarrow> bytes \<Rightarrow> any \<Rightarrow> (error + bool) \<times> state" where
  "transfer e s to tokenId data =
     (if length to \<noteq> 20 then (Inl AssertionError, s)
      else
        let token_owner = get_owner_of s tokenId
        in if \<not> check_witness e token_owner then (Inr False, s)
           else if token_owner \<noteq> to then
             (case add_to_balance s token_owner (- 1) of
                Inl err \<Rightarrow> (Inl err, s)
              | Inr s1 \<Rightarrow>
                  let s2 = remove_token s1 token_owner tokenId
                  in (case add_to_balance s2 to 1 of
                        Inl err \<Rightarrow> (Inl err, s2)
                      | Inr s3 \<Rightarrow>
                          let s4 = add_token s3 to tokenId;
                              s5 = set_owner_of s4 tokenId to
                          in (Inr True,
                              post_transfer e s5 (Some token_owner) (Some to) tokenId data)))
           else (Inr True, post_transfer e s (Some token_owner) (Some to) tokenId data))"

text \<open>The body of \<^verbatim>\<open>ownerOf\<close> is its docstring and nothing else: the method has no
  \<^verbatim>\<open>return\<close>, so it returns \<^verbatim>\<open>None\<close> for every token, without reading the storage.\<close>

definition ownerOf :: "state \<Rightarrow> bytes \<Rightarrow> bytes option" where
  "ownerOf s tokenId = None"

definition internal_burn :: "env \<Rightarrow> state \<Rightarrow> bytes \<Rightarrow> (error + bool) \<times> state" where
  "internal_burn e s token =
     (let owner = get_owner_of s token
      in if \<not> check_witness e owner then (Inr False, s)
         else
           let s1 = remove_token s owner token;
               s2 = remove_meta s1 token;
               s3 = remove_owner_of s2 token
           in (case add_to_balance s3 owner (- 1) of
                 Inl err \<Rightarrow> (Inl err, s3)
               | Inr s4 \<Rightarrow>
                   let s5 = add_to_supply s4 (- 1)
                   in (Inr True, post_transfer e s5 (Some owner) None token Null)))"

definition burn :: "env \<Rightarrow> state \<Rightarrow> bytes \<Rightarrow> (error + bool) \<times> state" where
  "burn e s token = internal_burn e s token"

text \<open>
  \<^verbatim>\<open>internal_mint\<close> builds the token identifier from the symbol and one integer, the sum
  of the transaction hash read as an integer, the new value of the token counter and,
  when \<^verbatim>\<open>data\<close> is not \<^verbatim>\<open>None\<close>, the serialized \<^verbatim>\<open>data\<close> read as an integer; \<^verbatim>\<open>append\<close>
  puts that integer's bytes behind the symbol.
\<close>

definition internal_mint ::
  "env \<Rightarrow> state \<Rightarrow> bytes \<Rightarrow> string \<Rightarrow> bytes \<Rightarrow> any \<Rightarrow> (error + bytes) \<times> state" where
  "internal_mint e s account meta lockedContent data =
     (let total = totalSupply s;
          newNFT = TOKEN_SYMBOL_B;
          token_id = to_int (storage_get s TOKEN_COUNT) + 1;
          s1 = storage_put s TOKEN_COUNT (int_to_bytes token_id);
          nftData = 0 + to_int (tx_hash e) + token_id
      in case (if data = Null then Some nftData
               else map_option (\<lambda>ser. nftData + to_int ser) (serialize data)) of
           None \<Rightarrow> (Inl Fault, s1)
         | Some nftData' \<Rightarrow>
             let token = newNFT @ int_to_bytes nftData';
                 nftmeta = json_serialize e meta;
                 s2 = debug s1 [''locked: '', lockedContent];
                 s3 = add_token s2 account token;
                 s4 = add_locked_content s3 token lockedContent;
                 s5 = add_meta s4 token nftmeta;
                 s6 = set_owner_of s5 token account
             in (case add_to_balance s6 account 1 of
                   Inl err \<Rightarrow> (Inl err, s6)
                 | Inr s7 \<Rightarrow>
                     let s8 = add_to_supply s7 1
                     in (Inr token, post_transfer e s8 None (Some account) token Null)))"

definition mint ::
  "env \<Rightarrow> state \<Rightarrow> bytes \<Rightarrow> string \<Rightarrow> bytes \<Rightarrow> any \<Rightarrow> (error + bytes) \<times> state" where
  "mint e s account meta lockedContent data =
     (let fee = get_mint_fee s
      in if fee < 0 then (Inl (Exception ''Mint fee can't be < 0''), s)
         else if \<not> gas_transfer e account fee then (Inl (Exception ''Fee payment failed!''), s)
         else internal_mint e s account meta lockedContent data)"

text \<open>
  The integer whose bytes \<^verbatim>\<open>internal_mint\<close> appends to the symbol (the final value of its
  local \<^verbatim>\<open>nftData\<close>), as a function of the state in which the mint starts; it has no
  value when \<^verbatim>\<open>data\<close> cannot be serialized. It only names that expression of
  \<^verbatim>\<open>internal_mint\<close> for the lemmas below.
\<close>

definition nft_data :: "env \<Rightarrow> state \<Rightarrow> any \<Rightarrow> int option" where
  "nft_data e s data =
     (if data = Null then Some (0 + to_int (tx_hash e) + (to_int (storage_get s TOKEN_COUNT) + 1))
      else map_option (\<lambda>ser. 0 + to_int (tx_hash e) + (to_int (storage_get s TOKEN_COUNT) + 1)
                              + to_int ser) (serialize data))"

subsection \<open>Fees, locked content, administration\<close>

definition getMintFee :: "state \<Rightarrow> int" where
  "getMintFee s = get_mint_fee s"

definition setMintFee :: "env \<Rightarrow> state \<Rightarrow> int \<Rightarrow> (error + int) \<times> state" where
  "setMintFee e s fee =
     (if \<not> verify e then (Inl AssertionError, s)
      else let (r, s1) = set_mint_fee s fee in (Inr r, s1))"

definition getLockedContentViewCount :: "state \<Rightarrow> bytes \<Rightarrow> int" where
  "getLockedContentViewCount s token = get_locked_view_counter s token"

definition getLockedContent :: "env \<Rightarrow> state \<Rightarrow> bytes \<Rightarrow> (error + bytes) \<times> state" where
  "getLockedContent e s token =
     (let owner = get_owner_of s token
      in if \<not> check_witness e owner
         then (Inl (Exception ''Prohibited access to locked content!''), s)
         else
           let s1 = incr_locked_view_counter s token;
               (val, s2) = get_locked_content s1 token
           in (Inr val, s2))"

text \<open>
  In \<^verbatim>\<open>set_authorized_address\<close> the loop over the list sets \<^verbatim>\<open>found\<close> at every entry equal
  to the address; \<^verbatim>\<open>list.remove\<close> raises \<^verbatim>\<open>ValueError\<close> when the address is not in the
  list.
\<close>

definition set_authorized_address ::
  "env \<Rightarrow> state \<Rightarrow> bytes \<Rightarrow> bool \<Rightarrow> (error + bool) \<times> state" where
  "set_authorized_address e s address authorized =
     (if \<not> verify e then (Inr False, s)
      else
        case deserialize_list (storage_get s AUTH_ADDRESSES) of
          None \<Rightarrow> (Inl Fault, s)
        | Some auth \<Rightarrow>
            if authorized then
              let found = foldl (\<lambda>found i. if i = address then True else found) False auth;
                  auth' = (if \<not> found then auth @ [address] else auth)
              in (case serialize_list auth' of
                    None \<Rightarrow> (Inl Fault, s)
                  | Some ser \<Rightarrow>
                      (Inr True, notify (storage_put s AUTH_ADDRESSES ser) (Auth address True)))
            else if address \<in> set auth then
              (case serialize_list (remove1 address auth) of
                 None \<Rightarrow> (Inl Fault, s)
               | Some ser \<Rightarrow>
                   (Inr True, notify (storage_put s AUTH_ADDRESSES ser) (Auth address False)))
            else (Inl ValueError, s))"

definition deploy :: "env \<Rightarrow> state \<Rightarrow> (error + bool) \<times> state" where
  "deploy e s =
     (if \<not> check_witness e OWNER then (Inr False, s)
      else if to_bool (storage_get s DEPLOYED) then (Inr False, s)
      else
        let s1 = storage_put s DEPLOYED (bool_to_bytes True);
            s2 = storage_put s1 TOKEN_COUNT (int_to_bytes 0);
            s3 = storage_put s2 MINT_FEE (int_to_bytes DEPLOY_FEE);
            auth = [] @ [OWNER]
        in (case serialize_list auth of
              None \<Rightarrow> (Inl Fault, s3)
            | Some serialized \<Rightarrow>
                (Inr True,
                 notify (storage_put s3 AUTH_ADDRESSES serialized) (Deploy OWNER symbol))))"

section \<open>A concrete ledger\<close>

text \<open>
  A host and a few states to run the methods on. The host of an invocation knows who
  signed the transaction and what its hash is; here no address is a contract, the GAS
  transfer succeeds (or, for \<open>unpaid_host\<close>, fails), and \<^verbatim>\<open>json_serialize\<close> writes a string
  between double quotes. Each state is what a sequence of calls of the contract's own
  methods leaves behind, starting from the empty storage.
\<close>

definition host :: "bytes list \<Rightarrow> bytes \<Rightarrow> env" where
  "host signers h =
     \<lparr>check_witness = (\<lambda>a. List.member signers a),
      is_contract = (\<lambda>a. False),
      gas_transfer = (\<lambda>a n. True),
      tx_hash = h,
      json_serialize = (\<lambda>m. CHR 0x22 # m @ [CHR 0x22])\<rparr>"

definition unpaid_host :: "bytes list \<Rightarrow> bytes \<Rightarrow> env" where
  "unpaid_host signers h = (host signers h)\<lparr>gas_transfer := (\<lambda>a n. False)\<rparr>"

definition alice :: bytes where "alice = ''aaaaaaaaaaaaaaaaaaaa''"
definition bob :: bytes where "bob = ''bbbbbbbbbbbbbbbbbbbb''"
definition tx1 :: bytes where "tx1 = ''0123456789abcdef0123456789abcdef''"

definition empty_state :: state where
  "empty_state = \<lparr>store = [], events = []\<rparr>"

definition deployed :: state where
  "deployed = snd (deploy (host [OWNER] tx1) empty_state)"

text \<open>One token minted to \<open>alice\<close> with the locked content \<open>secret1\<close>, and the same ledger
  after \<open>alice\<close> has burned the token.\<close>

definition minted :: state where
  "minted = snd (mint (host [alice] tx1) deployed alice ''meta1'' ''secret1'' Null)"

definition token1 :: bytes where
  "token1 = ''GHOST1123456789abcdef0123456789abcdef''"

definition burned :: state where
  "burned = snd (burn (host [alice] tx1) minted token1)"

text \<open>The mint fee set to zero and to a negative amount by the contract's owner.\<close>

definition fee_zero :: state where
  "fee_zero = snd (setMintFee (host [OWNER] tx1) deployed 0)"

definition fee_negative :: state where
  "fee_negative = snd (setMintFee (host [OWNER] tx1) deployed (- 1))"

text \<open>\<open>alice\<close> added to the authorized addresses by the contract's owner.\<close>

definition alice_authorized :: state where
  "alice_authorized = snd (set_authorized_address (host [OWNER] tx1) deployed alice True)"

text \<open>
  Two mints inside one transaction (the same transaction hash), the first for \<open>alice\<close>
  with the integer 0 as \<^verbatim>\<open>data\<close>, the second for \<open>bob\<close> with \<^verbatim>\<open>False\<close> as \<^verbatim>\<open>data\<close>.
\<close>

definition minted_once :: state where
  "minted_once = snd (mint (host [alice] tx1) deployed alice ''meta1'' ''secret1'' (Integer 0))"

definition minted_twice :: state where
  "minted_twice = snd (mint (host [alice] tx1) minted_once bob ''meta2'' ''secret2'' (Boolean False))"

definition token2 :: bytes where
  "token2 = ''GHOSTR123456789abcdef0123456789abcdef''"

section \<open>Facts about the host's conversions\<close>

text \<open>An integer written to the storage is read back as it was, and a serialized list of
  addresses deserializes to the same list.\<close>

lemma int_to_le_not_Nil: "int_to_le i \<noteq> []"
  by (subst int_to_le.simps) simp

lemma le_to_int_Cons: "cs \<noteq> [] \<Longrightarrow> le_to_int (c # cs) = of_char c + 256 * le_to_int cs"
  by (cases cs) simp_all

lemma le_to_int_int_to_le: "le_to_int (int_to_le i) = i"
proof (induction i rule: int_to_le.induct)
  case (1 i)
  show ?case
  proof (cases "- 128 \<le> i \<and> i < 128")
    case True
    then have "i mod 256 = (if i < 0 then i + 256 else i)"
      by (auto simp: mod_pos_pos_trivial) presburger
    with True show ?thesis
      by (subst int_to_le.simps) auto
  next
    case False
    with 1 have IH: "le_to_int (int_to_le (i div 256)) = i div 256"
      by simp
    from False have "int_to_le i = char_of (i mod 256) # int_to_le (i div 256)"
      by (subst int_to_le.simps) auto
    then show ?thesis
      by (simp add: le_to_int_Cons int_to_le_not_Nil IH)
  qed
qed

lemma to_int_int_to_bytes [simp]: "to_int (int_to_bytes i) = i"
  by (simp add: to_int_def int_to_bytes_def le_to_int_int_to_le)

lemma to_int_Nil [simp]: "to_int [] = 0"
  by (simp add: to_int_def)

lemma length_le_digits [simp]: "length (le_digits w v) = w"
  by (induction w arbitrary: v) simp_all

lemma le_value_le_digits: "le_value (le_digits w v) = v mod 256 ^ w"
proof (induction w arbitrary: v)
  case 0
  show ?case by simp
next
  case (Suc w)
  have "v mod 256 + 256 * (v div 256 mod 256 ^ w) = v mod (256 * 256 ^ w)"
    by (simp add: mod_mult2_eq)
  with Suc show ?case by simp
qed

lemma read_var_int_var_int:
  assumes "var_int n = Some p"
  shows "read_var_int (p @ r) = Some (n, r)"
proof -
  consider "n < 0xFD" | "0xFD \<le> n" "n \<le> 0xFFFF" | "0xFFFF < n" "n \<le> 0xFFFFFFFF"
    | "0xFFFFFFFF < n" "n \<le> 0xFFFFFFFFFFFFFFFF" | "0xFFFFFFFFFFFFFFFF < n"
    by linarith
  then show ?thesis
  proof cases
    case 1
    with assms show ?thesis by (auto simp: var_int_def)
  next
    case 2
    with assms have p: "p = CHR 0xFD # le_digits 2 n" by (auto simp: var_int_def)
    have "le_value (le_digits 2 n) = n mod 256 ^ 2" by (rule le_value_le_digits)
    with 2 have "le_value (le_digits 2 n) = n" by simp
    then show ?thesis unfolding p by (simp del: le_digits.simps)
  next
    case 3
    with assms have p: "p = CHR 0xFE # le_digits 4 n" by (auto simp: var_int_def)
    have "le_value (le_digits 4 n) = n mod 256 ^ 4" by (rule le_value_le_digits)
    with 3 have "le_value (le_digits 4 n) = n" by simp
    then show ?thesis unfolding p by (simp del: le_digits.simps)
  next
    case 4
    with assms have p: "p = CHR 0xFF # le_digits 8 n" by (auto simp: var_int_def)
    have "le_value (le_digits 8 n) = n mod 256 ^ 8" by (rule le_value_le_digits)
    with 4 have "le_value (le_digits 8 n) = n" by simp
    then show ?thesis unfolding p by (simp del: le_digits.simps)
  next
    case 5
    with assms show ?thesis by (auto simp: var_int_def)
  qed
qed

lemma deserialize_items_serialize_items:
  "serialize_items xs = Some b \<Longrightarrow> deserialize_items (length xs) b = Some xs"
proof (induction xs arbitrary: b)
  case Nil
  then show ?case by simp
next
  case (Cons x xs)
  from Cons.prems obtain p t where p: "var_int (length x) = Some p"
    and t: "serialize_items xs = Some t" and b: "b = CHR 0x28 # (p @ x) @ t"
    by (auto simp: var_bytes_def split: option.splits)
  have "read_var_int (p @ (x @ t)) = Some (length x, x @ t)"
    using p by (rule read_var_int_var_int)
  with Cons.IH [OF t] show ?case
    unfolding b by simp
qed

lemma deserialize_list_serialize_list:
  assumes "serialize_list xs = Some b"
  shows "deserialize_list b = Some xs"
proof -
  from assms obtain n t where n: "var_int (length xs) = Some n"
    and t: "serialize_items xs = Some t" and b: "b = CHR 0x40 # n @ t"
    by (auto simp: serialize_list_def split: option.splits)
  have "read_var_int (n @ t) = Some (length xs, t)"
    using n by (rule read_var_int_var_int)
  with deserialize_items_serialize_items [OF t] show ?thesis
    unfolding b by simp
qed

section \<open>Facts about the storage\<close>

lemma store_storage_put [simp]:
  "map_of (store (storage_put s k v)) k' = (if k' = k then Some v else map_of (store s) k')"
  by (simp add: storage_put_def update_conv')

lemma store_storage_delete [simp]:
  "map_of (store (storage_delete s k)) k' = (if k' = k then None else map_of (store s) k')"
  by (simp add: storage_delete_def delete_conv')

lemma store_notify [simp]: "store (notify s ev) = store s"
  by (simp add: notify_def)

lemma events_notify [simp]: "events (notify s ev) = events s @ [ev]"
  by (simp add: notify_def)

lemma events_storage_put [simp]: "events (storage_put s k v) = events s"
  by (simp add: storage_put_def)

lemma events_storage_delete [simp]: "events (storage_delete s k) = events s"
  by (simp add: storage_delete_def)

lemma storage_get_storage_put [simp]:
  "storage_get (storage_put s k v) k' = (if k' = k then v else storage_get s k')"
  by (simp add: storage_get_def)

lemma storage_get_storage_delete [simp]:
  "storage_get (storage_delete s k) k' = (if k' = k then [] else storage_get s k')"
  by (simp add: storage_get_def)

lemma storage_get_notify [simp]: "storage_get (notify s ev) k = storage_get s k"
  by (simp add: storage_get_def)

lemma storage_get_live: "map_of (store s) k = Some v \<Longrightarrow> storage_get s k = v"
  by (simp add: storage_get_def)

lemma storage_put_same:
  "map_of (store s) k = Some v \<Longrightarrow> storage_put s k v = s"
  by (simp add: storage_put_def update_triv)

lemmas key_defs =
  mk_account_prefix_def mk_balance_key_def mk_token_key_def mk_locked_key_def
  mk_meta_key_def mk_lv_key_def ACCOUNT_PREFIX_def TOKEN_PREFIX_def LOCKED_PREFIX_def
  BALANCE_PREFIX_def SUPPLY_PREFIX_def META_PREFIX_def LOCKED_VIEW_COUNT_def
  TOKEN_COUNT_def MINT_FEE_def AUTH_ADDRESSES_def DEPLOYED_def TOKEN_SYMBOL_B_def

lemma found_loop:
  "foldl (\<lambda>found i. if i = a then True else found) b xs = (b \<or> a \<in> set xs)"
  by (induction xs arbitrary: b) auto

section \<open>Ownership lookup\<close>

lemma get_owner_of_live:
  "map_of (store s) (mk_token_key t) = Some owner \<Longrightarrow> get_owner_of s t = owner"
  by (simp add: get_owner_of_def UInt160_def storage_get_live)

text \<open>
  C1. The claim: for a live token, \<^verbatim>\<open>ownerOf\<close> returns the address stored as the
  token's owner. The method's docstring promises the owner, but the method has no body
  behind the docstring: on the ledger \<open>minted\<close>, where the storage holds \<open>alice\<close> as the
  owner of \<open>token1\<close> and the internal \<^verbatim>\<open>get_owner_of\<close> reads her address, \<^verbatim>\<open>ownerOf\<close>
  returns \<^verbatim>\<open>None\<close>.
\<close>

theorem ownerOf_returns_none:
  "map_of (store minted) (mk_token_key token1) = Some alice
   \<and> get_owner_of minted token1 = alice
   \<and> ownerOf minted token1 = None"
proof -
  have "map_of (store minted) (mk_token_key token1) = Some alice"
    by code_simp
  then show ?thesis
    by (simp add: get_owner_of_live ownerOf_def)
qed

section \<open>Burn\<close>

lemma internal_burn_keeps_locked_content:
  "map_of (store (snd (internal_burn e s t))) (mk_locked_key t')
     = map_of (store s) (mk_locked_key t')"
  by (simp add: internal_burn_def add_to_balance_def balanceOf_def Let_def
      add_to_supply_def post_transfer_def remove_owner_of_def remove_meta_def
      remove_token_def key_defs split: sum.splits)

text \<open>
  C2. The claim: a burn by the token's authorized owner succeeds and removes the
  TokenOwner entry, the OwnerToken index entry, the Metadata entry and the LockedContent
  entry, and takes one from the owner's balance and from the supply. \<^verbatim>\<open>internal_burn\<close>
  never calls \<^verbatim>\<open>remove_locked_content\<close>: on the ledger \<open>minted\<close>, the burn of \<open>token1\<close> by
  \<open>alice\<close> returns true, removes the three other entries and lowers balance and supply
  from 1 to 0, and the locked content \<open>secret1\<close> is still in the storage afterwards.
\<close>

theorem burn_leaves_locked_content:
  "fst (burn (host [alice] tx1) minted token1) = Inr True
   \<and> map_of (store burned) (mk_token_key token1) = None
   \<and> map_of (store burned) (mk_account_prefix alice @ token1) = None
   \<and> map_of (store burned) (mk_meta_key token1) = None
   \<and> balanceOf minted alice = Inr 1 \<and> balanceOf burned alice = Inr 0
   \<and> totalSupply minted = 1 \<and> totalSupply burned = 0
   \<and> map_of (store minted) (mk_locked_key token1) = Some ''secret1''
   \<and> map_of (store burned) (mk_locked_key token1) = Some ''secret1''"
  by code_simp

section \<open>Transfer\<close>

text \<open>Every address that a successful mint or transfer writes as an owner is 20 bytes
  long: \<^verbatim>\<open>transfer\<close> asserts it, and \<^verbatim>\<open>mint\<close> reaches the assertion of \<^verbatim>\<open>balanceOf\<close>
  through \<^verbatim>\<open>add_to_balance\<close> (lemma \<open>mint_success\<close> below).\<close>

lemma transfer_success_address:
  "fst (transfer e s to t data) = Inr b \<Longrightarrow> length to = 20"
  by (auto simp: transfer_def split: if_splits)

text \<open>
  C3. A transfer of a live token to its own owner, authorized by the owner, returns
  true, leaves the storage as it was (no key is written or deleted) and emits the
  Transfer event from the owner to the owner; when the owner is a contract, the call of
  its \<^verbatim>\<open>onNEP11Payment\<close> follows the event. The owner is an address, 20 bytes long. The
  statement holds in every state, reachable or not.
\<close>

theorem transfer_to_owner_is_noop:
  assumes "map_of (store s) (mk_token_key t) = Some owner"
    and "length owner = 20"
    and "check_witness e owner"
  shows "fst (transfer e s owner t data) = Inr True
    \<and> store (snd (transfer e s owner t data)) = store s
    \<and> events (snd (transfer e s owner t data)) =
        events s @ Transfer (Some owner) (Some owner) 1 t
          # (if is_contract e owner then [OnNEP11Payment owner (Some owner) 1 t data] else [])"
proof -
  from assms(1) have "get_owner_of s t = owner"
    by (rule get_owner_of_live)
  with assms(2,3) show ?thesis
    by (simp add: transfer_def post_transfer_def Let_def)
qed

theorem transfer_to_owner_is_noop_witness:
  "fst (transfer (host [alice] tx1) minted alice token1 Null) = Inr True
   \<and> store (snd (transfer (host [alice] tx1) minted alice token1 Null)) = store minted
   \<and> events (snd (transfer (host [alice] tx1) minted alice token1 Null))
       = events minted @ [Transfer (Some alice) (Some alice) 1 token1]"
proof -
  have "map_of (store minted) (mk_token_key token1) = Some alice"
    by code_simp
  moreover have "length alice = 20"
    by code_simp
  moreover have "check_witness (host [alice] tx1) alice"
    by code_simp
  moreover have "\<not> is_contract (host [alice] tx1) alice"
    by code_simp
  ultimately show ?thesis
    using transfer_to_owner_is_noop [of minted token1 alice "host [alice] tx1" Null]
    by simp
qed

text \<open>
  C4. When the address stored as the owner of the token is not witness-authorized, a
  transfer to any 20-byte address returns false, not an error, and the state it leaves
  is the state it started from: no balance, index entry or owner entry has changed. The
  statement holds in every state and for every token identifier.
\<close>

theorem unauthorized_transfer_soft_fails:
  assumes "length to = 20"
    and "\<not> check_witness e (get_owner_of s t)"
  shows "transfer e s to t data = (Inr False, s)"
  using assms by (simp add: transfer_def Let_def)

theorem unauthorized_transfer_soft_fails_witness:
  "get_owner_of minted token1 = alice
   \<and> \<not> check_witness (host [bob] tx1) alice
   \<and> transfer (host [bob] tx1) minted bob token1 Null = (Inr False, minted)"
proof -
  have owner: "get_owner_of minted token1 = alice"
    by code_simp
  have unsigned: "\<not> check_witness (host [bob] tx1) alice"
    by code_simp
  have "length bob = 20"
    by code_simp
  with owner unsigned show ?thesis
    using unauthorized_transfer_soft_fails [of bob "host [bob] tx1" minted token1 Null]
    by simp
qed

text \<open>
  C10. For an address that is not exactly 20 bytes long, \<^verbatim>\<open>balanceOf\<close>, \<^verbatim>\<open>tokensOf\<close> and
  \<^verbatim>\<open>transfer\<close> abort with the failed assertion. The outcome is the same in every state,
  so nothing read from the storage has a part in it, and the state at the abort is the
  state the call started from, so nothing was written.
\<close>

theorem bad_address_asserts:
  assumes "length a \<noteq> 20"
  shows "balanceOf s a = Inl AssertionError
    \<and> tokensOf s a = Inl AssertionError
    \<and> transfer e s a t data = (Inl AssertionError, s)"
  using assms by (simp add: balanceOf_def tokensOf_def transfer_def)

theorem bad_address_asserts_witness:
  "length ''nineteen-bytes-long'' \<noteq> (20::nat)
   \<and> balanceOf minted ''nineteen-bytes-long'' = Inl AssertionError
   \<and> tokensOf minted ''nineteen-bytes-long'' = Inl AssertionError
   \<and> transfer (host [alice] tx1) minted ''nineteen-bytes-long'' token1 Null
       = (Inl AssertionError, minted)"
  using bad_address_asserts [of "''nineteen-bytes-long''" minted "host [alice] tx1" token1 Null]
  by simp

section \<open>Locked content\<close>

lemma internal_mint_alt:
  "internal_mint e s account meta lockedContent data =
     (case nft_data e s data of
        None \<Rightarrow>
          (Inl Fault,
           storage_put s TOKEN_COUNT (int_to_bytes (to_int (storage_get s TOKEN_COUNT) + 1)))
      | Some n \<Rightarrow>
          let token = TOKEN_SYMBOL_B @ int_to_bytes n;
              s1 = storage_put s TOKEN_COUNT (int_to_bytes (to_int (storage_get s TOKEN_COUNT) + 1));
              s2 = debug s1 [''locked: '', lockedContent];
              s3 = add_token s2 account token;
              s4 = add_locked_content s3 token lockedContent;
              s5 = add_meta s4 token (json_serialize e meta);
              s6 = set_owner_of s5 token account
          in (case add_to_balance s6 account 1 of
                Inl err \<Rightarrow> (Inl err, s6)
              | Inr s7 \<Rightarrow>
                  (Inr token, post_transfer e (add_to_supply s7 1) None (Some account) token Null)))"
  unfolding internal_mint_def nft_data_def Let_def by simp

lemma internal_mint_fault:
  "nft_data e s data = None \<Longrightarrow>
     fst (internal_mint e s account meta lockedContent data) = Inl Fault"
  by (simp add: internal_mint_alt)

lemma internal_mint_bad_account:
  "length account \<noteq> 20 \<Longrightarrow>
     \<exists>err. fst (internal_mint e s account meta lockedContent data) = Inl err"
  by (cases "nft_data e s data")
    (simp_all add: internal_mint_alt Let_def add_to_balance_def balanceOf_def)

lemma internal_mint_ok:
  assumes "length account = 20" and "nft_data e s data = Some n"
  shows "fst (internal_mint e s account meta lockedContent data)
           = Inr (TOKEN_SYMBOL_B @ int_to_bytes n)"
    and "map_of (store (snd (internal_mint e s account meta lockedContent data)))
           (mk_token_key (TOKEN_SYMBOL_B @ int_to_bytes n)) = Some account"
    and "map_of (store (snd (internal_mint e s account meta lockedContent data)))
          (mk_locked_key (TOKEN_SYMBOL_B @ int_to_bytes n)) = Some lockedContent"
    and "totalSupply (snd (internal_mint e s account meta lockedContent data))
           = totalSupply s + 1"
    and "to_int (storage_get (snd (internal_mint e s account meta lockedContent data)) TOKEN_COUNT)
           = to_int (storage_get s TOKEN_COUNT) + 1"
    and "t \<noteq> TOKEN_SYMBOL_B @ int_to_bytes n \<Longrightarrow> mk_token_key t \<noteq> TOKEN_COUNT \<Longrightarrow>
           map_of (store (snd (internal_mint e s account meta lockedContent data))) (mk_token_key t)
             = map_of (store s) (mk_token_key t)"
  using assms
  by (simp_all add: internal_mint_alt Let_def add_to_balance_def balanceOf_def
        add_to_supply_def totalSupply_def post_transfer_def set_owner_of_def add_meta_def
        add_locked_content_def add_token_def debug_def key_defs)

lemma mint_success:
  assumes "fst (mint e s account meta lockedContent data) = Inr token"
  shows "mint e s account meta lockedContent data
           = internal_mint e s account meta lockedContent data"
    and "length account = 20"
    and "\<exists>n. nft_data e s data = Some n \<and> token = TOKEN_SYMBOL_B @ int_to_bytes n"
proof -
  from assms show m: "mint e s account meta lockedContent data
           = internal_mint e s account meta lockedContent data"
    by (auto simp: mint_def Let_def split: if_splits)
  from assms internal_mint_bad_account [of account e s meta lockedContent data]
  show len: "length account = 20"
    unfolding m by auto
  from assms internal_mint_fault [of e s data account meta lockedContent]
  obtain n where n: "nft_data e s data = Some n"
    unfolding m by (cases "nft_data e s data") auto
  from assms internal_mint_ok(1) [OF len n, of meta lockedContent]
  show "\<exists>n. nft_data e s data = Some n \<and> token = TOKEN_SYMBOL_B @ int_to_bytes n"
    unfolding m using n by auto
qed

lemma mint_stores_locked_content:
  assumes "fst (mint e s account meta lockedContent data) = Inr token"
  shows "map_of (store (snd (mint e s account meta lockedContent data))) (mk_locked_key token)
           = Some lockedContent
       \<and> map_of (store (snd (mint e s account meta lockedContent data))) (mk_token_key token)
           = Some account"
proof -
  from mint_success [OF assms] obtain n where
    m: "mint e s account meta lockedContent data
           = internal_mint e s account meta lockedContent data"
    and len: "length account = 20"
    and n: "nft_data e s data = Some n" and tok: "token = TOKEN_SYMBOL_B @ int_to_bytes n"
    by auto
  from internal_mint_ok(2,3) [OF len n] show ?thesis
    unfolding m tok by simp
qed

text \<open>
  C5. For a live token whose locked content is in the storage (\<^verbatim>\<open>mint\<close> puts it there,
  lemma \<open>mint_stores_locked_content\<close>): with the owner's witness, \<^verbatim>\<open>getLockedContent\<close>
  returns that content and the token's view counter is one more than before; without
  it, the call aborts with the exception of the source and the state at the abort is
  the state it started from, the view counter included.
\<close>

theorem locked_content_gating:
  assumes "map_of (store s) (mk_token_key t) = Some owner"
    and "map_of (store s) (mk_locked_key t) = Some payload"
  shows "(check_witness e owner \<longrightarrow>
            fst (getLockedContent e s t) = Inr payload
          \<and> getLockedContentViewCount (snd (getLockedContent e s t)) t
              = getLockedContentViewCount s t + 1)
       \<and> (\<not> check_witness e owner \<longrightarrow>
            getLockedContent e s t = (Inl (Exception ''Prohibited access to locked content!''), s))"
proof -
  from assms(1) have owner: "get_owner_of s t = owner"
    by (rule get_owner_of_live)
  have keys: "mk_locked_key t \<noteq> mk_lv_key t"
    by (simp add: key_defs)
  from assms(2) have "storage_get s (mk_locked_key t) = payload"
    by (rule storage_get_live)
  with owner keys show ?thesis
    by (simp add: getLockedContent_def getLockedContentViewCount_def get_locked_content_def
        incr_locked_view_counter_def get_locked_view_counter_def debug_def Let_def)
qed

theorem locked_content_gating_witness:
  "fst (getLockedContent (host [alice] tx1) minted token1) = Inr ''secret1''
   \<and> getLockedContentViewCount minted token1 = 0
   \<and> getLockedContentViewCount (snd (getLockedContent (host [alice] tx1) minted token1)) token1 = 1
   \<and> getLockedContent (host [bob] tx1) minted token1
       = (Inl (Exception ''Prohibited access to locked content!''), minted)"
proof -
  have live: "map_of (store minted) (mk_token_key token1) = Some alice"
    by code_simp
  have content: "map_of (store minted) (mk_locked_key token1) = Some ''secret1''"
    by code_simp
  have signed: "check_witness (host [alice] tx1) alice"
    by code_simp
  have unsigned: "\<not> check_witness (host [bob] tx1) alice"
    by code_simp
  have count: "getLockedContentViewCount minted token1 = 0"
    by code_simp
  from signed unsigned count show ?thesis
    using locked_content_gating [OF live content, of "host [alice] tx1"]
      locked_content_gating [OF live content, of "host [bob] tx1"]
    by simp
qed

end
